theory Spec2Isabelle
  imports Complex_Main
begin

section \<open>Numbers and arrays\<close>

text \<open>
  The program computes on JAX arrays of floating-point numbers. The embedding keeps the
  two features of those numbers that the program's control flow and alignment logic
  depend on: their arithmetic, idealised to the real numbers (no rounding, no
  infinities), and the not-a-number marker, which the fit path uses as a padding value
  and which absorbs every arithmetic operation. A property that depends on how a
  product or a sum is rounded, underflows or overflows cannot be expressed over these
  numbers.
\<close>

datatype float = NaN | Num real

fun fmul :: "float \<Rightarrow> float \<Rightarrow> float" where
  "fmul (Num a) (Num b) = Num (a * b)"
| "fmul _ _ = NaN"

fun fadd :: "float \<Rightarrow> float \<Rightarrow> float" where
  "fadd (Num a) (Num b) = Num (a + b)"
| "fadd _ _ = NaN"

primrec fsum :: "float list \<Rightarrow> float" where
  "fsum [] = Num 0"
| "fsum (x # xs) = fadd x (fsum xs)"

text \<open>
  A sampled value is a scalar (a zero-dimensional array) or a one-dimensional array.
\<close>

datatype ndarray = Scalar float | Arr "float list"

datatype error =
    ValueError
  | TypeError
  | IndexError
  | AssertionError
  | AttributeError
  | Failure string

text \<open>
  Elementwise product with the broadcasting rules of the array library: a scalar
  stretches over an array, two arrays of one length multiply pointwise, an array of
  length one stretches over the other operand, and any other pair of lengths is
  rejected (JAX reports incompatible shapes as a type error).
\<close>

fun multiply :: "ndarray \<Rightarrow> ndarray \<Rightarrow> error + ndarray" where
  "multiply (Scalar a) (Scalar b) = Inr (Scalar (fmul a b))"
| "multiply (Scalar a) (Arr ys) = Inr (Arr (map (fmul a) ys))"
| "multiply (Arr xs) (Scalar b) = Inr (Arr (map (\<lambda>x. fmul x b) xs))"
| "multiply (Arr xs) (Arr ys) =
     (if length xs = length ys then Inr (Arr (map2 fmul xs ys))
      else if length xs = 1 then Inr (Arr (map (fmul (hd xs)) ys))
      else if length ys = 1 then Inr (Arr (map (\<lambda>x. fmul x (hd ys)) xs))
      else Inl TypeError)"

text \<open>
  \<open>jnp.convolve(a, v, mode="full")\<close>: entry \<open>n\<close> of the result is the sum of
  \<open>a[m] * v[n - m]\<close> over every \<open>m\<close> for which both indices are in range; the result
  has \<open>len(a) + len(v) - 1\<close> entries. Operands that are not one-dimensional, and empty
  operands, are rejected with a value error.
\<close>

definition convolve_full :: "float list \<Rightarrow> float list \<Rightarrow> float list" where
  "convolve_full a v =
     map (\<lambda>n. fsum (map (\<lambda>m. fmul (a ! m) (v ! (n - m)))
                         [n + 1 - length v ..< min (n + 1) (length a)]))
         [0 ..< length a + length v - 1]"

fun convolve :: "ndarray \<Rightarrow> ndarray \<Rightarrow> error + ndarray" where
  "convolve (Arr a) (Arr v) =
     (if a = [] \<or> v = [] then Inl ValueError else Inr (Arr (convolve_full a v)))"
| "convolve _ _ = Inl ValueError"

text \<open>\<open>x.shape[0]\<close>, \<open>len(x)\<close>, \<open>x[:k]\<close> and \<open>x[k:]\<close>.\<close>

fun shape0 :: "ndarray \<Rightarrow> error + nat" where
  "shape0 (Arr xs) = Inr (length xs)"
| "shape0 (Scalar _) = Inl IndexError"

fun len :: "ndarray \<Rightarrow> error + nat" where
  "len (Arr xs) = Inr (length xs)"
| "len (Scalar _) = Inl TypeError"

fun slice_upto :: "nat \<Rightarrow> ndarray \<Rightarrow> error + ndarray" where
  "slice_upto k (Arr xs) = Inr (Arr (take k xs))"
| "slice_upto k (Scalar _) = Inl IndexError"

text \<open>
  A slice \<open>x[k:]\<close> with a negative \<open>k\<close> starts \<open>-k\<close> entries before the end (at the
  start, when the array is shorter than that).
\<close>

fun slice_from :: "int \<Rightarrow> ndarray \<Rightarrow> error + ndarray" where
  "slice_from k (Arr xs) =
     Inr (Arr (if 0 \<le> k then drop (nat k) xs else drop (length xs - nat (- k)) xs))"
| "slice_from k (Scalar _) = Inl IndexError"

section \<open>Effects: the trace of a sampling run\<close>

text \<open>
  A \<open>sample\<close> call has two kinds of effect: it calls \<open>sample\<close> on its collaborators
  and it registers named deterministic values with the inference library. Both are
  recorded, in order, in a trace that is threaded through the computation; an exception
  ends the computation and keeps the trace reached so far.
\<close>

datatype event =
    SampleCall string
  | Deterministic string ndarray
  | BasicRenewalCall int int
  | LatentAdmissionsCall ndarray
  | ObservationCall ndarray "ndarray option"

type_synonym trace = "event list"

type_synonym 'a action = "trace \<Rightarrow> (error + 'a) \<times> trace"

definition ret :: "'a \<Rightarrow> 'a action" where
  "ret x tr = (Inr x, tr)"

definition raise :: "error \<Rightarrow> 'a action" where
  "raise e tr = (Inl e, tr)"

definition lift :: "error + 'a \<Rightarrow> 'a action" where
  "lift r tr = (r, tr)"

definition emit :: "event \<Rightarrow> unit action" where
  "emit ev tr = (Inr (), tr @ [ev])"

definition and_then :: "'a action \<Rightarrow> ('a \<Rightarrow> 'b action) \<Rightarrow> 'b action" where
  "and_then m f tr = (case m tr of (Inl e, tr') \<Rightarrow> (Inl e, tr') | (Inr x, tr') \<Rightarrow> f x tr')"

section \<open>Stochastic process handles\<close>

text \<open>
  A handle is whatever object the caller passes where a random variable is expected. Two
  things about it matter: whether it is an instance of \<open>RandomVariable\<close>, and what
  \<open>handle.sample(...)\<close> yields in the run at hand, a tuple of values or an exception.
  An instance of \<open>RandomVariable\<close> always has a \<open>sample\<close> method. An object that
  is not an instance and has no \<open>sample\<close> method is the handle whose result is an
  attribute error: looking the method up raises before any call is made.
\<close>

record handle =
  is_RandomVariable :: bool
  sample_result :: "error + ndarray list"

definition lacks_sample_method :: "handle \<Rightarrow> bool" where
  "lacks_sample_method h = (\<not> is_RandomVariable h \<and> sample_result h = Inl AttributeError)"

definition call_sample :: "string \<Rightarrow> handle \<Rightarrow> ndarray list action" where
  "call_sample who h =
     (if lacks_sample_method h then raise AttributeError
      else and_then (emit (SampleCall who)) (\<lambda>_. lift (sample_result h)))"

text \<open>\<open>x, *_ = t\<close> and \<open>t[0]\<close> on a tuple.\<close>

fun unpack_first :: "'a list \<Rightarrow> error + 'a" where
  "unpack_first [] = Inl ValueError"
| "unpack_first (x # _) = Inr x"

fun index0 :: "'a list \<Rightarrow> error + 'a" where
  "index0 [] = Inl IndexError"
| "index0 (x # _) = Inr x"

fun unpack_first_two :: "'a list \<Rightarrow> error + 'a \<times> 'a" where
  "unpack_first_two (x # y # _) = Inr (x, y)"
| "unpack_first_two _ = Inl ValueError"

text \<open>
  Modelled from the spec: \<open>DeterministicVariable\<close> (module \<open>pyrenew.deterministic\<close>),
  the random variable that the constructor substitutes for an omitted weekday-effect or
  reporting-probability process. The spec describes the default as the constant 1: a
  random variable whose \<open>sample\<close> returns the one-element tuple holding its value.
\<close>

definition DeterministicVariable :: "ndarray \<Rightarrow> string \<Rightarrow> handle" where
  "DeterministicVariable vars label = \<lparr>is_RandomVariable = True, sample_result = Inr [vars]\<rparr>"

section \<open>The latent hospital admissions component\<close>

record HospitalAdmissionsSample =
  infection_hosp_rate :: ndarray
  latent_hospital_admissions :: ndarray

record HospitalAdmissions =
  latent_hospital_admissions_varname :: string
  infect_hosp_rate_rv :: handle
  day_of_week_effect_rv :: handle
  hosp_report_prob_rv :: handle
  infection_to_admission_interval_rv :: handle

definition HospitalAdmissions_validate :: "handle \<Rightarrow> handle \<Rightarrow> handle \<Rightarrow> error + unit" where
  "HospitalAdmissions_validate rate_rv weekday_rv report_rv =
     (if \<not> is_RandomVariable rate_rv then Inl AssertionError
      else if \<not> is_RandomVariable weekday_rv then Inl AssertionError
      else if \<not> is_RandomVariable report_rv then Inl AssertionError
      else Inr ())"

definition HospitalAdmissions_init ::
  "handle \<Rightarrow> handle \<Rightarrow> string \<Rightarrow> handle option \<Rightarrow> handle option \<Rightarrow> error + HospitalAdmissions" where
  "HospitalAdmissions_init interval_rv rate_rv varname weekday_opt report_opt =
     (let weekday_rv = (case weekday_opt of
                          None \<Rightarrow> DeterministicVariable (Scalar (Num 1)) ''weekday_effect''
                        | Some h \<Rightarrow> h);
          report_rv = (case report_opt of
                         None \<Rightarrow> DeterministicVariable (Scalar (Num 1)) ''hosp_report_prob''
                       | Some h \<Rightarrow> h)
      in case HospitalAdmissions_validate rate_rv weekday_rv report_rv of
           Inl e \<Rightarrow> Inl e
         | Inr _ \<Rightarrow> Inr \<lparr>latent_hospital_admissions_varname = varname,
                        infect_hosp_rate_rv = rate_rv,
                        day_of_week_effect_rv = weekday_rv,
                        hosp_report_prob_rv = report_rv,
                        infection_to_admission_interval_rv = interval_rv\<rparr>)"

definition HospitalAdmissions_sample ::
  "HospitalAdmissions \<Rightarrow> ndarray \<Rightarrow> HospitalAdmissionsSample action" where
  "HospitalAdmissions_sample self latent_infections =
     and_then (call_sample ''infect_hosp_rate_rv'' (infect_hosp_rate_rv self)) (\<lambda>t1.
     and_then (lift (unpack_first t1)) (\<lambda>rate.
     and_then (lift (multiply rate latent_infections)) (\<lambda>rate_t.
     and_then (call_sample ''infection_to_admission_interval_rv''
                 (infection_to_admission_interval_rv self)) (\<lambda>t2.
     and_then (lift (unpack_first t2)) (\<lambda>interval.
     and_then (lift (convolve rate_t interval)) (\<lambda>full.
     and_then (lift (shape0 rate_t)) (\<lambda>n.
     and_then (lift (slice_upto n full)) (\<lambda>adm0.
     and_then (call_sample ''day_of_week_effect_rv'' (day_of_week_effect_rv self)) (\<lambda>t3.
     and_then (lift (index0 t3)) (\<lambda>weekday.
     and_then (lift (multiply adm0 weekday)) (\<lambda>adm1.
     and_then (call_sample ''hosp_report_prob_rv'' (hosp_report_prob_rv self)) (\<lambda>t4.
     and_then (lift (index0 t4)) (\<lambda>report.
     and_then (lift (multiply adm1 report)) (\<lambda>adm2.
     and_then (emit (Deterministic (latent_hospital_admissions_varname self) adm2)) (\<lambda>_.
     ret \<lparr>infection_hosp_rate = rate, latent_hospital_admissions = adm2\<rparr>)))))))))))))))"

section \<open>The hospital admissions model\<close>

text \<open>
  Modelled from the spec: the result of the inner renewal model's \<open>sample\<close> (class
  \<open>RtInfectionsRenewalModel\<close>, module \<open>pyrenew.model.rtinfectionsrenewalmodel\<close>), of
  which the spec says only that it exposes the fields \<open>Rt\<close> and \<open>latent_infections\<close>.
\<close>

record RtInfectionsRenewalSample =
  Rt :: ndarray
  latent_infections :: ndarray

text \<open>
  The first four fields are filled by every successful \<open>sample\<close>; the last is absent
  (\<open>None\<close>) when there is no observation process.
\<close>

record HospModelSample =
  Rt :: ndarray
  latent_infections :: ndarray
  infection_hosp_rate :: ndarray
  latent_hosp_admissions :: ndarray
  observed_hosp_admissions :: "ndarray option"

text \<open>
  The collaborators of the model are parameters of the embedding.
  \<^item> \<open>basic_renewal\<close> is the inner renewal model, given by what its \<open>sample\<close> yields for
    a number of timepoints and a padding (it is always called without observed
    infections).
  \<^item> \<open>latent_hosp_admissions_rv\<close> is any random variable whose \<open>sample\<close> takes the
    latent infections and returns a tuple; the component above is one, see
    \<open>as_random_variable\<close>.
  \<^item> \<open>hosp_admission_obs_process_rv\<close> is the optional observation process, given by
    what its \<open>sample\<close> yields for a mean series \<open>mu\<close> and observed data \<open>obs\<close>.
\<close>

record HospitalAdmissionsModel =
  basic_renewal :: "int \<Rightarrow> int \<Rightarrow> error + RtInfectionsRenewalSample"
  latent_hosp_admissions_rv :: "ndarray \<Rightarrow> ndarray list action"
  hosp_admission_obs_process_rv :: "(ndarray \<Rightarrow> ndarray option \<Rightarrow> error + ndarray list) option"

definition as_random_variable :: "HospitalAdmissions \<Rightarrow> ndarray \<Rightarrow> ndarray list action" where
  "as_random_variable c latent =
     and_then (HospitalAdmissions_sample c latent) (\<lambda>s.
     ret [HospitalAdmissionsSample.infection_hosp_rate s, latent_hospital_admissions s])"

datatype pad_direction = PadStart | PadEnd

text \<open>
  Modelled from the spec: \<open>pad_x_to_match_y\<close> (module \<open>pyrenew.arrayutils\<close>). The spec
  says that it pads \<open>x\<close> with the fill value, at the start for the direction used here,
  so that its length matches that of \<open>y\<close>. The spec is silent about an \<open>x\<close> longer than
  \<open>y\<close>, which no padding can make match; the definition reports that case as a value error.
\<close>

fun pad_x_to_match_y :: "ndarray \<Rightarrow> ndarray \<Rightarrow> float \<Rightarrow> pad_direction \<Rightarrow> error + ndarray" where
  "pad_x_to_match_y (Arr x) (Arr y) fill_value pad_direction =
     (if length x \<le> length y
      then Inr (Arr (case pad_direction of
                       PadStart \<Rightarrow> replicate (length y - length x) fill_value @ x
                     | PadEnd \<Rightarrow> x @ replicate (length y - length x) fill_value))
      else Inl ValueError)"
| "pad_x_to_match_y _ _ fill_value pad_direction = Inl TypeError"

definition sample_latent_hosp_admissions ::
  "HospitalAdmissionsModel \<Rightarrow> ndarray \<Rightarrow> ndarray list action" where
  "sample_latent_hosp_admissions self infections =
     and_then (emit (LatentAdmissionsCall infections)) (\<lambda>_.
     latent_hosp_admissions_rv self infections)"

definition sample_admissions_process ::
  "HospitalAdmissionsModel \<Rightarrow> ndarray \<Rightarrow> ndarray option \<Rightarrow> ndarray list action" where
  "sample_admissions_process self observed_hosp_admissions_mean data_observed =
     (case hosp_admission_obs_process_rv self of
        None \<Rightarrow> raise AttributeError
      | Some obs_process \<Rightarrow>
          and_then (emit (ObservationCall observed_hosp_admissions_mean data_observed)) (\<lambda>_.
          lift (obs_process observed_hosp_admissions_mean data_observed)))"

definition sample_basic_renewal ::
  "HospitalAdmissionsModel \<Rightarrow> int \<Rightarrow> int \<Rightarrow> RtInfectionsRenewalSample action" where
  "sample_basic_renewal self n_timepoints padding =
     and_then (emit (BasicRenewalCall n_timepoints padding)) (\<lambda>_.
     lift (basic_renewal self n_timepoints padding))"

text \<open>
  The part of \<open>HospitalAdmissionsModel.sample\<close> after the number of timepoints has been
  resolved (source lines 250 to 307).
\<close>

definition sample_with_timepoints ::
  "HospitalAdmissionsModel \<Rightarrow> int \<Rightarrow> ndarray option \<Rightarrow> int \<Rightarrow> HospModelSample action" where
  "sample_with_timepoints self n_timepoints data_observed padding =
     and_then (sample_basic_renewal self n_timepoints padding) (\<lambda>basic_model.
     and_then (sample_latent_hosp_admissions self
                 (RtInfectionsRenewalSample.latent_infections basic_model)) (\<lambda>t.
     and_then (lift (unpack_first_two t)) (\<lambda>(rate, latent).
     and_then (lift (len latent)) (\<lambda>l.
     let i0_size = int l - n_timepoints in
     and_then
       (case hosp_admission_obs_process_rv self of
          None \<Rightarrow> ret None
        | Some _ \<Rightarrow>
            (case data_observed of
               None \<Rightarrow>
                 and_then (sample_admissions_process self latent None) (\<lambda>t'.
                 and_then (lift (unpack_first t')) (\<lambda>observed. ret (Some observed)))
             | Some data \<Rightarrow>
                 and_then (lift (pad_x_to_match_y data latent NaN PadStart)) (\<lambda>padded.
                 and_then (lift (slice_from (i0_size + padding) latent)) (\<lambda>mean.
                 and_then (lift (slice_from (i0_size + padding) padded)) (\<lambda>obs.
                 and_then (sample_admissions_process self mean (Some obs)) (\<lambda>t'.
                 and_then (lift (unpack_first t')) (\<lambda>observed. ret (Some observed))))))))
       (\<lambda>observed.
     ret \<lparr>HospModelSample.Rt = RtInfectionsRenewalSample.Rt basic_model,
          latent_infections = RtInfectionsRenewalSample.latent_infections basic_model,
          infection_hosp_rate = rate,
          latent_hosp_admissions = latent,
          observed_hosp_admissions = observed\<rparr>)))))"

definition HospitalAdmissionsModel_sample ::
  "HospitalAdmissionsModel \<Rightarrow> int option \<Rightarrow> ndarray option \<Rightarrow> int \<Rightarrow> HospModelSample action" where
  "HospitalAdmissionsModel_sample self n_timepoints_to_simulate data_observed padding =
     (if n_timepoints_to_simulate = None \<and> data_observed = None then raise ValueError
      else if n_timepoints_to_simulate \<noteq> None \<and> data_observed \<noteq> None then raise ValueError
      else case n_timepoints_to_simulate of
             None \<Rightarrow>
               and_then (lift (case data_observed of
                                 None \<Rightarrow> Inl TypeError
                               | Some data \<Rightarrow> len data)) (\<lambda>n.
               sample_with_timepoints self (int n) data_observed padding)
           | Some n \<Rightarrow> sample_with_timepoints self n data_observed padding)"

section \<open>Notions used in the statements\<close>

text \<open>
  An optional handle passes the constructor's check when it is omitted (the default is a
  random variable) or is an instance of \<open>RandomVariable\<close>.
\<close>

definition conforming :: "handle option \<Rightarrow> bool" where
  "conforming h = (case h of None \<Rightarrow> True | Some x \<Rightarrow> is_RandomVariable x)"

text \<open>
  A sampled value stretches a series of length one when it is an array whose own length
  is not one: broadcasting then gives the product the length of that array. A handle
  samples a stretching value when the first element of the tuple it returns is one.
\<close>

definition stretches :: "ndarray \<Rightarrow> bool" where
  "stretches v = (case v of Scalar _ \<Rightarrow> False | Arr ys \<Rightarrow> length ys \<noteq> 1)"

definition samples_stretching :: "handle \<Rightarrow> bool" where
  "samples_stretching h =
     (case sample_result h of Inr (v # _) \<Rightarrow> stretches v | _ \<Rightarrow> False)"

text \<open>
  The configurations on which the theorems below are instantiated: a random variable
  whose \<open>sample\<close> returns the one-element tuple holding a given value, the component
  of the round-trip scenario, and a model around it whose renewal model yields five
  timepoints and whose observation process returns the observed data when there is some
  and the mean series otherwise.
\<close>

definition constant_process :: "ndarray \<Rightarrow> handle" where
  "constant_process v = \<lparr>is_RandomVariable = True, sample_result = Inr [v]\<rparr>"

definition example_component :: HospitalAdmissions where
  "example_component =
     \<lparr>latent_hospital_admissions_varname = ''latent_hospital_admissions'',
      infect_hosp_rate_rv = constant_process (Scalar (Num (1/10))),
      day_of_week_effect_rv = constant_process (Scalar (Num 1)),
      hosp_report_prob_rv = constant_process (Scalar (Num 1)),
      infection_to_admission_interval_rv =
        constant_process (Arr [Num (1/2), Num (1/2)])\<rparr>"

definition example_model :: HospitalAdmissionsModel where
  "example_model =
     \<lparr>basic_renewal = (\<lambda>n padding.
        Inr \<lparr>RtInfectionsRenewalSample.Rt = Arr [Num 1, Num 1, Num 1, Num 1, Num 1],
             latent_infections = Arr [Num 100, Num 100, Num 100, Num 100, Num 100]\<rparr>),
      latent_hosp_admissions_rv = as_random_variable example_component,
      hosp_admission_obs_process_rv =
        Some (\<lambda>mu obs. Inr [case obs of None \<Rightarrow> mu | Some data \<Rightarrow> data])\<rparr>"

section \<open>Running an action\<close>

lemma and_then_lift:
  "and_then (lift r) f tr = (case r of Inl e \<Rightarrow> (Inl e, tr) | Inr x \<Rightarrow> f x tr)"
  by (simp add: and_then_def lift_def split: sum.splits)

lemma and_then_emit: "and_then (emit ev) f tr = f () (tr @ [ev])"
  by (simp add: and_then_def emit_def)

lemma and_then_ret: "and_then (ret x) f tr = f x tr"
  by (simp add: and_then_def ret_def)

lemma and_then_raise: "and_then (raise e) f tr = (Inl e, tr)"
  by (simp add: and_then_def raise_def)

lemma and_then_call_sample:
  "and_then (call_sample who h) f tr =
     (case sample_result h of
        Inl e \<Rightarrow> (Inl e, if lacks_sample_method h then tr else tr @ [SampleCall who])
      | Inr t \<Rightarrow> f t (tr @ [SampleCall who]))"
  by (auto simp: call_sample_def lacks_sample_method_def and_then_def emit_def lift_def raise_def
      split: sum.splits)

lemma and_then_assoc: "and_then (and_then a f) g = and_then a (\<lambda>x. and_then (f x) g)"
  by (auto simp: and_then_def fun_eq_iff split: sum.splits prod.splits)

lemma and_then_run:
  "a tr = (r, tr') \<Longrightarrow>
     and_then a f tr = (case r of Inl e \<Rightarrow> (Inl e, tr') | Inr x \<Rightarrow> f x tr')"
  by (simp add: and_then_def split: sum.splits)

lemmas run =
  and_then_lift and_then_emit and_then_ret and_then_raise and_then_call_sample ret_def raise_def

section \<open>The component on the round-trip scenario\<close>

lemma convolve_roundtrip:
  "convolve_full [Num 10, Num 10, Num 10] [Num (1/2), Num (1/2)]
     = [Num 5, Num 10, Num 10, Num 5]"
  by (simp add: convolve_full_def upt_rec)

text \<open>
  Claim C1. A component built from a delay process that samples \<open>[0.5, 0.5]\<close>, a rate
  process that samples 0.1 and weekday and reporting processes that sample 1, sampled
  on the infections \<open>[100, 100, 100]\<close>, returns the rate 0.1 and the admissions
  \<open>[5, 10, 10]\<close>; the full convolution of the scaled infections with the delay is
  \<open>[5, 10, 10, 5]\<close>.
\<close>

theorem roundtrip_scenario:
  "(case HospitalAdmissions_init
           (constant_process (Arr [Num (1/2), Num (1/2)]))
           (constant_process (Scalar (Num (1/10))))
           ''latent_hospital_admissions''
           (Some (constant_process (Scalar (Num 1))))
           (Some (constant_process (Scalar (Num 1))))
    of Inl e \<Rightarrow> Inl e
     | Inr c \<Rightarrow> fst (HospitalAdmissions_sample c (Arr [Num 100, Num 100, Num 100]) tr))
   = Inr \<lparr>HospitalAdmissionsSample.infection_hosp_rate = Scalar (Num (1/10)),
          latent_hospital_admissions = Arr [Num 5, Num 10, Num 10]\<rparr>
   \<and> convolve (Arr [Num 10, Num 10, Num 10]) (Arr [Num (1/2), Num (1/2)])
       = Inr (Arr [Num 5, Num 10, Num 10, Num 5])"
  by (simp add: Let_def HospitalAdmissions_init_def HospitalAdmissions_validate_def
      constant_process_def HospitalAdmissions_sample_def run convolve_roundtrip)

section \<open>Construction of the component\<close>

text \<open>
  Claim C5, as the claim states it, fails: a delay handle that is not a random variable
  (and has no \<open>sample\<close> method at all) is accepted by the constructor, which returns
  the component holding it.
\<close>

theorem init_accepts_unchecked_interval:
  "HospitalAdmissions_init
      \<lparr>is_RandomVariable = False, sample_result = Inl AttributeError\<rparr>
      (constant_process (Scalar (Num (1/10))))
      ''latent_hospital_admissions'' None None
   = Inr \<lparr>latent_hospital_admissions_varname = ''latent_hospital_admissions'',
          infect_hosp_rate_rv = constant_process (Scalar (Num (1/10))),
          day_of_week_effect_rv = DeterministicVariable (Scalar (Num 1)) ''weekday_effect'',
          hosp_report_prob_rv = DeterministicVariable (Scalar (Num 1)) ''hosp_report_prob'',
          infection_to_admission_interval_rv =
            \<lparr>is_RandomVariable = False, sample_result = Inl AttributeError\<rparr>\<rparr>"
  by (simp add: Let_def HospitalAdmissions_init_def HospitalAdmissions_validate_def
      DeterministicVariable_def constant_process_def)

text \<open>
  Claim C5, amended. The constructor checks three handles, the rate, the weekday effect
  and the reporting probability (the last two after the defaults are filled in), and
  fails with an assertion error exactly when one of them is not a random variable. The
  delay handle is not checked: whatever it is, it is stored in the component when the
  other three pass.
\<close>

theorem init_checks_three_handles:
  "(if is_RandomVariable rate_rv \<and> conforming weekday_opt \<and> conforming report_opt
    then \<exists>c. HospitalAdmissions_init interval_rv rate_rv varname weekday_opt report_opt = Inr c
            \<and> infection_to_admission_interval_rv c = interval_rv
            \<and> infect_hosp_rate_rv c = rate_rv
    else HospitalAdmissions_init interval_rv rate_rv varname weekday_opt report_opt
           = Inl AssertionError)"
  by (auto simp: Let_def HospitalAdmissions_init_def HospitalAdmissions_validate_def
      conforming_def DeterministicVariable_def constant_process_def split: option.splits)

theorem init_checks_three_handles_witness:
  "HospitalAdmissions_init
      (constant_process (Arr [Num 1]))
      (constant_process (Scalar (Num (1/10))))
      ''latent_hospital_admissions''
      (Some \<lparr>is_RandomVariable = False, sample_result = Inr [Scalar (Num 1)]\<rparr>)
      None
   = Inl AssertionError"
  using init_checks_three_handles
    [of "constant_process (Scalar (Num (1/10)))"
        "Some \<lparr>is_RandomVariable = False, sample_result = Inr [Scalar (Num 1)]\<rparr>"
        None
        "constant_process (Arr [Num 1])"
        "''latent_hospital_admissions''"]
  by (simp add: conforming_def)

section \<open>The time-extent arguments of the model\<close>

text \<open>
  Claim C4. \<open>HospitalAdmissionsModel.sample\<close> raises a value error when neither
  \<open>n_timepoints_to_simulate\<close> nor \<open>data_observed_hosp_admissions\<close> is given, and
  when both are given. In both cases the trace is returned as it was received: no
  collaborator has been sampled and nothing has been registered.
\<close>

theorem sample_rejects_time_extent:
  "HospitalAdmissionsModel_sample m None None padding tr = (Inl ValueError, tr)
   \<and> HospitalAdmissionsModel_sample m (Some n) (Some d) padding tr = (Inl ValueError, tr)"
  by (simp add: HospitalAdmissionsModel_sample_def raise_def)

section \<open>What a successful run of the component computed\<close>

lemma sample_returns_iff:
  "fst (HospitalAdmissions_sample c x tr) = Inr s \<longleftrightarrow>
     (\<exists>t1 r rate_t t2 d full n adm0 t3 w adm1 t4 p adm2.
        sample_result (infect_hosp_rate_rv c) = Inr t1 \<and> unpack_first t1 = Inr r
      \<and> multiply r x = Inr rate_t
      \<and> sample_result (infection_to_admission_interval_rv c) = Inr t2 \<and> unpack_first t2 = Inr d
      \<and> convolve rate_t d = Inr full \<and> shape0 rate_t = Inr n \<and> slice_upto n full = Inr adm0
      \<and> sample_result (day_of_week_effect_rv c) = Inr t3 \<and> index0 t3 = Inr w
      \<and> multiply adm0 w = Inr adm1
      \<and> sample_result (hosp_report_prob_rv c) = Inr t4 \<and> index0 t4 = Inr p
      \<and> multiply adm1 p = Inr adm2
      \<and> s = \<lparr>HospitalAdmissionsSample.infection_hosp_rate = r,
              latent_hospital_admissions = adm2\<rparr>)"
  by (auto simp: HospitalAdmissions_sample_def run split: sum.splits)

lemma index0_Inr: "index0 t = Inr w \<Longrightarrow> \<exists>ws. t = w # ws"
  by (cases t) simp_all

lemma unpack_first_Inr: "unpack_first t = Inr w \<Longrightarrow> \<exists>ws. t = w # ws"
  by (cases t) simp_all

lemma example_component_run:
  "HospitalAdmissions_sample example_component (Arr [Num 100, Num 100, Num 100]) []
   = (Inr \<lparr>HospitalAdmissionsSample.infection_hosp_rate = Scalar (Num (1/10)),
           latent_hospital_admissions = Arr [Num 5, Num 10, Num 10]\<rparr>,
      [SampleCall ''infect_hosp_rate_rv'', SampleCall ''infection_to_admission_interval_rv'',
       SampleCall ''day_of_week_effect_rv'', SampleCall ''hosp_report_prob_rv'',
       Deterministic ''latent_hospital_admissions'' (Arr [Num 5, Num 10, Num 10])])"
  by (simp add: example_component_def constant_process_def HospitalAdmissions_sample_def
      run convolve_roundtrip)

section \<open>Length of the admissions series\<close>

lemma multiply_length_right:
  assumes "multiply (Arr xs) w = Inr v" and "length xs \<noteq> 1 \<or> \<not> stretches w"
  shows "\<exists>ys. v = Arr ys \<and> length ys = length xs"
  using assms by (cases w) (auto simp: stretches_def split: if_splits)

lemma multiply_length_left:
  assumes "multiply r (Arr xs) = Inr v" and "length xs \<noteq> 1 \<or> \<not> stretches r"
  shows "\<exists>ys. v = Arr ys \<and> length ys = length xs"
  using assms by (cases r) (auto simp: stretches_def split: if_splits)

lemma length_convolve_full: "length (convolve_full a v) = length a + length v - 1"
  by (simp add: convolve_full_def)

lemma truncated_convolution:
  assumes "convolve (Arr a) d = Inr full" and "slice_upto (length a) full = Inr adm"
  shows "\<exists>v. d = Arr v \<and> adm = Arr (take (length a) (convolve_full a v))
            \<and> length (take (length a) (convolve_full a v)) = length a"
proof (cases d)
  case (Scalar x)
  with assms show ?thesis by simp
next
  case (Arr v)
  with assms(1) have "v \<noteq> []" and full: "full = Arr (convolve_full a v)"
    by (auto split: if_splits)
  then have "length a \<le> length (convolve_full a v)"
    by (cases v) (simp_all add: length_convolve_full)
  with assms(2) full Arr show ?thesis by auto
qed

text \<open>
  Claim C2, as the claim states it, fails: on a series of one infection count, a weekday
  effect of seven entries is broadcast against the one admission count, and the returned
  series has seven entries.
\<close>

theorem weekday_effect_stretches_short_series:
  "fst (HospitalAdmissions_sample
          (example_component\<lparr>day_of_week_effect_rv :=
             constant_process (Arr [Num 1, Num 1, Num 1, Num 1, Num 1, Num 1, Num 1])\<rparr>)
          (Arr [Num 100]) [])
   = Inr \<lparr>HospitalAdmissionsSample.infection_hosp_rate = Scalar (Num (1/10)),
          latent_hospital_admissions = Arr [Num 5, Num 5, Num 5, Num 5, Num 5, Num 5, Num 5]\<rparr>
   \<and> length [Num 5, Num 5, Num 5, Num 5, Num 5, Num 5, Num 5] \<noteq> length [Num 100]"
  by (simp add: example_component_def HospitalAdmissions_sample_def run
      constant_process_def convolve_full_def upt_rec)

text \<open>
  Claim C2, amended. Whenever \<open>sample\<close> returns, the returned admissions series is
  the full convolution of the rate-scaled infections with the sampled delay
  distribution, truncated to its first \<open>len(latent_infections)\<close> entries and then
  multiplied by the sampled weekday effect and reporting probability, and it has
  exactly as many entries as the latent infection series, whatever the length of the
  delay distribution, provided the infection series does not have length one or none
  of the sampled rate, weekday effect and reporting probability is an array of a
  length other than one.
\<close>

theorem admissions_length:
  assumes ret: "fst (HospitalAdmissions_sample c (Arr xs) tr) = Inr s"
    and shape: "length xs \<noteq> 1 \<or>
                \<not> (samples_stretching (infect_hosp_rate_rv c)
                   \<or> samples_stretching (day_of_week_effect_rv c)
                   \<or> samples_stretching (hosp_report_prob_rv c))"
  shows "\<exists>r rest1 v rest2 w rest3 p rest4 a adm1 ys.
           sample_result (infect_hosp_rate_rv c) = Inr (r # rest1)
         \<and> sample_result (infection_to_admission_interval_rv c) = Inr (Arr v # rest2)
         \<and> sample_result (day_of_week_effect_rv c) = Inr (w # rest3)
         \<and> sample_result (hosp_report_prob_rv c) = Inr (p # rest4)
         \<and> multiply r (Arr xs) = Inr (Arr a)
         \<and> length a = length xs
         \<and> length (take (length xs) (convolve_full a v)) = length xs
         \<and> multiply (Arr (take (length xs) (convolve_full a v))) w = Inr adm1
         \<and> multiply adm1 p = Inr (Arr ys)
         \<and> latent_hospital_admissions s = Arr ys
         \<and> length ys = length xs"
proof -
  from ret obtain t1 r rate_t t2 d full n adm0 t3 w adm1 t4 p adm2 where
    t1: "sample_result (infect_hosp_rate_rv c) = Inr t1" "unpack_first t1 = Inr r"
    and m1: "multiply r (Arr xs) = Inr rate_t"
    and t2: "sample_result (infection_to_admission_interval_rv c) = Inr t2"
      "unpack_first t2 = Inr d"
    and cv: "convolve rate_t d = Inr full" "shape0 rate_t = Inr n" "slice_upto n full = Inr adm0"
    and t3: "sample_result (day_of_week_effect_rv c) = Inr t3" "index0 t3 = Inr w"
    and m2: "multiply adm0 w = Inr adm1"
    and t4: "sample_result (hosp_report_prob_rv c) = Inr t4" "index0 t4 = Inr p"
    and m3: "multiply adm1 p = Inr adm2"
    and s: "s = \<lparr>HospitalAdmissionsSample.infection_hosp_rate = r,
                  latent_hospital_admissions = adm2\<rparr>"
    unfolding sample_returns_iff by blast
  from unpack_first_Inr [OF t1(2)] t1(1) obtain rest1 where
    h1: "sample_result (infect_hosp_rate_rv c) = Inr (r # rest1)" by auto
  from unpack_first_Inr [OF t2(2)] t2(1) obtain rest2 where
    h2: "sample_result (infection_to_admission_interval_rv c) = Inr (d # rest2)" by auto
  from index0_Inr [OF t3(2)] t3(1) obtain rest3 where
    h3: "sample_result (day_of_week_effect_rv c) = Inr (w # rest3)" by auto
  from index0_Inr [OF t4(2)] t4(1) obtain rest4 where
    h4: "sample_result (hosp_report_prob_rv c) = Inr (p # rest4)" by auto
  have r: "length xs \<noteq> 1 \<or> \<not> stretches r"
    using shape h1 by (auto simp: samples_stretching_def)
  have w: "length xs \<noteq> 1 \<or> \<not> stretches w"
    using shape h3 by (auto simp: samples_stretching_def)
  have p: "length xs \<noteq> 1 \<or> \<not> stretches p"
    using shape h4 by (auto simp: samples_stretching_def)
  from multiply_length_left [OF m1 r] obtain a where a: "rate_t = Arr a" "length a = length xs"
    by blast
  with cv have n: "n = length a" by simp
  from truncated_convolution [of a d full adm0] cv a n obtain v where
    v: "d = Arr v" "adm0 = Arr (take (length xs) (convolve_full a v))"
      "length (take (length xs) (convolve_full a v)) = length xs"
    by auto
  from multiply_length_right [of "take (length xs) (convolve_full a v)" w adm1] m2 v w
  obtain e where e: "adm1 = Arr e" "length e = length xs" by auto
  from multiply_length_right [of e p adm2] m3 e p
  obtain ys where ys: "adm2 = Arr ys" "length ys = length xs" by auto
  from h1 h2 h3 h4 m1 a v m2 m3 ys s show ?thesis by auto
qed

theorem admissions_length_witness:
  "fst (HospitalAdmissions_sample example_component (Arr [Num 100, Num 100, Num 100]) [])
     = Inr \<lparr>HospitalAdmissionsSample.infection_hosp_rate = Scalar (Num (1/10)),
            latent_hospital_admissions = Arr [Num 5, Num 10, Num 10]\<rparr>
   \<and> length [Num 100, Num 100, Num 100 :: float] \<noteq> 1
   \<and> take (length [Num 100, Num 100, Num 100 :: float])
        (convolve_full [Num 10, Num 10, Num 10] [Num (1/2), Num (1/2)])
       = [Num 5, Num 10, Num 10]
   \<and> (\<exists>ys. Arr [Num 5, Num 10, Num 10] = Arr ys \<and> length ys = 3)"
proof -
  have ret: "fst (HospitalAdmissions_sample example_component
                    (Arr [Num 100, Num 100, Num 100]) [])
             = Inr \<lparr>HospitalAdmissionsSample.infection_hosp_rate = Scalar (Num (1/10)),
                    latent_hospital_admissions = Arr [Num 5, Num 10, Num 10]\<rparr>"
    by (simp add: example_component_run)
  have shape: "length [Num 100, Num 100, Num 100 :: float] \<noteq> 1
               \<or> \<not> (samples_stretching (infect_hosp_rate_rv example_component)
                     \<or> samples_stretching (day_of_week_effect_rv example_component)
                     \<or> samples_stretching (hosp_report_prob_rv example_component))"
    by simp
  from admissions_length [OF ret shape] obtain ys where
    "latent_hospital_admissions
       \<lparr>HospitalAdmissionsSample.infection_hosp_rate = Scalar (Num (1/10)),
        latent_hospital_admissions = Arr [Num 5, Num 10, Num 10]\<rparr> = Arr ys"
    "length ys = length [Num 100, Num 100, Num 100 :: float]"
    by blast
  with ret show ?thesis by (simp add: convolve_roundtrip)
qed

section \<open>The zero-delay distribution\<close>

lemma fmul_one [simp]: "fmul x (Num 1) = x"
  by (cases x) simp_all

lemma fadd_zero [simp]: "fadd x (Num 0) = x"
  by (cases x) simp_all

lemma convolve_full_unit: "convolve_full xs [Num 1] = xs"
proof -
  have "convolve_full xs [Num 1] = map (\<lambda>n. xs ! n) [0 ..< length xs]"
    unfolding convolve_full_def
    by (rule map_cong) (simp_all add: min_def)
  then show ?thesis by (simp add: map_nth)
qed

text \<open>
  Claim C7, as the claim states it, fails on the empty infection series: the convolution
  rejects an empty operand, so \<open>sample\<close> raises a value error and returns no series.
\<close>

theorem empty_series_is_rejected:
  "fst (HospitalAdmissions_sample
          (example_component\<lparr>infection_to_admission_interval_rv :=
             constant_process (Arr [Num 1])\<rparr>)
          (Arr []) [])
   = Inl ValueError"
  by (simp add: example_component_def HospitalAdmissions_sample_def run constant_process_def)

text \<open>
  Claim C7, amended. For every infection series that is not empty and every scalar
  sampled rate \<open>r\<close>, when the delay process samples \<open>[1]\<close> and the weekday and
  reporting processes sample 1, \<open>sample\<close> returns the rate \<open>r\<close> and the admissions
  \<open>r * latent_infections\<close>, entry by entry.
\<close>

theorem zero_delay_admissions:
  assumes "xs \<noteq> []"
    and "sample_result (infect_hosp_rate_rv c) = Inr (Scalar r # rest1)"
    and "sample_result (infection_to_admission_interval_rv c) = Inr (Arr [Num 1] # rest2)"
    and "sample_result (day_of_week_effect_rv c) = Inr (Scalar (Num 1) # rest3)"
    and "sample_result (hosp_report_prob_rv c) = Inr (Scalar (Num 1) # rest4)"
  shows "fst (HospitalAdmissions_sample c (Arr xs) tr)
           = Inr \<lparr>HospitalAdmissionsSample.infection_hosp_rate = Scalar r,
                  latent_hospital_admissions = Arr (map (fmul r) xs)\<rparr>
         \<and> multiply (Scalar r) (Arr xs) = Inr (Arr (map (fmul r) xs))"
  using assms by (simp add: sample_returns_iff convolve_full_unit)

theorem zero_delay_admissions_witness:
  "fst (HospitalAdmissions_sample
          (example_component\<lparr>infection_to_admission_interval_rv :=
             constant_process (Arr [Num 1])\<rparr>)
          (Arr [Num 100, Num 200, Num 300]) [])
   = Inr \<lparr>HospitalAdmissionsSample.infection_hosp_rate = Scalar (Num (1/10)),
          latent_hospital_admissions = Arr [Num 10, Num 20, Num 30]\<rparr>"
  using zero_delay_admissions
    [of "[Num 100, Num 200, Num 300]"
        "example_component\<lparr>infection_to_admission_interval_rv :=
           constant_process (Arr [Num 1])\<rparr>"
        "Num (1/10)" "[]" "[]" "[]" "[]" "[]"]
  by (simp add: example_component_def constant_process_def)

section \<open>What a successful run of the model returned\<close>

lemma sample_with_timepoints_returns:
  assumes "fst (sample_with_timepoints m k d p tr) = Inr s"
  shows "\<exists>b. basic_renewal m k p = Inr b
           \<and> HospModelSample.Rt s = RtInfectionsRenewalSample.Rt b
           \<and> HospModelSample.latent_infections s = RtInfectionsRenewalSample.latent_infections b
           \<and> (hosp_admission_obs_process_rv m = None \<longrightarrow> observed_hosp_admissions s = None)"
  using assms
  by (auto simp: sample_with_timepoints_def sample_basic_renewal_def
      sample_latent_hosp_admissions_def sample_admissions_process_def
      and_then_def lift_def emit_def ret_def raise_def Let_def
      split: sum.splits option.splits prod.splits)

lemma model_sample_returns:
  assumes "fst (HospitalAdmissionsModel_sample m n d p tr) = Inr s"
  shows "\<exists>k. (case n of Some j \<Rightarrow> k = j \<and> d = None
                | None \<Rightarrow> \<exists>ds. d = Some (Arr ds) \<and> k = int (length ds))
           \<and> fst (sample_with_timepoints m k d p tr) = Inr s"
proof (cases n)
  case None
  with assms obtain x where d: "d = Some x"
    by (cases d) (auto simp: HospitalAdmissionsModel_sample_def run)
  with None assms obtain ds where "x = Arr ds"
    by (cases x) (auto simp: HospitalAdmissionsModel_sample_def run)
  with None d assms show ?thesis
    by (auto simp: HospitalAdmissionsModel_sample_def run)
next
  case (Some j)
  with assms show ?thesis
    by (cases d) (auto simp: HospitalAdmissionsModel_sample_def run)
qed

lemma convolve_five:
  "convolve_full [Num 10, Num 10, Num 10, Num 10, Num 10] [Num (1/2), Num (1/2)]
     = [Num 5, Num 10, Num 10, Num 10, Num 10, Num 5]"
  by (simp add: convolve_full_def upt_rec)

lemma example_latent_run:
  "as_random_variable example_component (Arr [Num 100, Num 100, Num 100, Num 100, Num 100]) tr
   = (Inr [Scalar (Num (1/10)), Arr [Num 5, Num 10, Num 10, Num 10, Num 10]],
      tr @ [SampleCall ''infect_hosp_rate_rv'', SampleCall ''infection_to_admission_interval_rv'',
            SampleCall ''day_of_week_effect_rv'', SampleCall ''hosp_report_prob_rv'',
            Deterministic ''latent_hospital_admissions''
              (Arr [Num 5, Num 10, Num 10, Num 10, Num 10])])"
  by (simp add: as_random_variable_def example_component_def constant_process_def
      HospitalAdmissions_sample_def and_then_assoc run convolve_five)

lemmas example_latent_then =
  and_then_run [where a = "as_random_variable example_component
                             (Arr [Num 100, Num 100, Num 100, Num 100, Num 100])",
                OF example_latent_run]

lemmas model_run =
  HospitalAdmissionsModel_sample_def sample_with_timepoints_def sample_basic_renewal_def
  sample_latent_hosp_admissions_def sample_admissions_process_def and_then_assoc run Let_def

text \<open>
  Claim C6. When the model has no observation process, every \<open>sample\<close> call that
  returns, with a number of timepoints to simulate or with observed data to fit, returns
  a sample whose \<open>observed_hosp_admissions\<close> is absent.
\<close>

theorem no_observation_process:
  assumes "hosp_admission_obs_process_rv m = None"
    and "fst (HospitalAdmissionsModel_sample m n d p tr) = Inr s"
  shows "observed_hosp_admissions s = None"
  using model_sample_returns [OF assms(2)] assms(1)
  by (auto dest: sample_with_timepoints_returns)

theorem no_observation_process_witness:
  "hosp_admission_obs_process_rv (example_model\<lparr>hosp_admission_obs_process_rv := None\<rparr>) = None
   \<and> fst (HospitalAdmissionsModel_sample
            (example_model\<lparr>hosp_admission_obs_process_rv := None\<rparr>)
            None (Some (Arr [Num 7, Num 8, Num 9])) 0 [])
       = Inr \<lparr>HospModelSample.Rt = Arr [Num 1, Num 1, Num 1, Num 1, Num 1],
              latent_infections = Arr [Num 100, Num 100, Num 100, Num 100, Num 100],
              infection_hosp_rate = Scalar (Num (1/10)),
              latent_hosp_admissions = Arr [Num 5, Num 10, Num 10, Num 10, Num 10],
              observed_hosp_admissions = None\<rparr>"
proof -
  let ?m = "example_model\<lparr>hosp_admission_obs_process_rv := None\<rparr>"
  let ?s = "\<lparr>HospModelSample.Rt = Arr [Num 1, Num 1, Num 1, Num 1, Num 1],
              latent_infections = Arr [Num 100, Num 100, Num 100, Num 100, Num 100],
              infection_hosp_rate = Scalar (Num (1/10)),
              latent_hosp_admissions = Arr [Num 5, Num 10, Num 10, Num 10, Num 10],
              observed_hosp_admissions = None\<rparr>"
  have none: "hosp_admission_obs_process_rv ?m = None"
    by simp
  have ret: "fst (HospitalAdmissionsModel_sample ?m None (Some (Arr [Num 7, Num 8, Num 9])) 0 [])
             = Inr ?s"
    by (simp add: model_run example_model_def example_latent_then)
  from no_observation_process [OF none ret] none ret show ?thesis by simp
qed

text \<open>
  Claim C9. Whenever \<open>sample\<close> returns, the inner renewal model's \<open>sample\<close>, called
  with the resolved number of timepoints and the given padding, returned a value, and
  the fields \<open>Rt\<close> and \<open>latent_infections\<close> of the returned sample are the fields of
  that value.
\<close>

theorem renewal_fields_pass_through:
  assumes "fst (HospitalAdmissionsModel_sample m n d p tr) = Inr s"
  shows "\<exists>k b. (case n of Some j \<Rightarrow> k = j
                  | None \<Rightarrow> map_option len d = Some (Inr (nat k)) \<and> 0 \<le> k)
           \<and> basic_renewal m k p = Inr b
           \<and> HospModelSample.Rt s = RtInfectionsRenewalSample.Rt b
           \<and> HospModelSample.latent_infections s = RtInfectionsRenewalSample.latent_infections b"
proof -
  from model_sample_returns [OF assms] obtain k where
    k: "case n of Some j \<Rightarrow> k = j \<and> d = None
                | None \<Rightarrow> \<exists>ds. d = Some (Arr ds) \<and> k = int (length ds)"
    and r: "fst (sample_with_timepoints m k d p tr) = Inr s" by blast
  from sample_with_timepoints_returns [OF r] obtain b where
    "basic_renewal m k p = Inr b"
    "HospModelSample.Rt s = RtInfectionsRenewalSample.Rt b"
    "HospModelSample.latent_infections s = RtInfectionsRenewalSample.latent_infections b"
    by blast
  moreover from k have
    "case n of Some j \<Rightarrow> k = j | None \<Rightarrow> map_option len d = Some (Inr (nat k)) \<and> 0 \<le> k"
    by (auto split: option.splits)
  ultimately show ?thesis by blast
qed

theorem renewal_fields_pass_through_witness:
  "fst (HospitalAdmissionsModel_sample example_model (Some 3) None 0 [])
     = Inr \<lparr>HospModelSample.Rt = Arr [Num 1, Num 1, Num 1, Num 1, Num 1],
            latent_infections = Arr [Num 100, Num 100, Num 100, Num 100, Num 100],
            infection_hosp_rate = Scalar (Num (1/10)),
            latent_hosp_admissions = Arr [Num 5, Num 10, Num 10, Num 10, Num 10],
            observed_hosp_admissions = Some (Arr [Num 5, Num 10, Num 10, Num 10, Num 10])\<rparr>
   \<and> (\<exists>b. basic_renewal example_model 3 0 = Inr b
          \<and> RtInfectionsRenewalSample.Rt b = Arr [Num 1, Num 1, Num 1, Num 1, Num 1]
          \<and> RtInfectionsRenewalSample.latent_infections b
              = Arr [Num 100, Num 100, Num 100, Num 100, Num 100])"
proof -
  let ?s = "\<lparr>HospModelSample.Rt = Arr [Num 1, Num 1, Num 1, Num 1, Num 1],
              latent_infections = Arr [Num 100, Num 100, Num 100, Num 100, Num 100],
              infection_hosp_rate = Scalar (Num (1/10)),
              latent_hosp_admissions = Arr [Num 5, Num 10, Num 10, Num 10, Num 10],
              observed_hosp_admissions = Some (Arr [Num 5, Num 10, Num 10, Num 10, Num 10])\<rparr>"
  have ret: "fst (HospitalAdmissionsModel_sample example_model (Some 3) None 0 []) = Inr ?s"
    by (simp add: model_run example_model_def example_latent_then)
  from renewal_fields_pass_through [OF ret] ret show ?thesis by auto
qed

section \<open>Alignment of the fit window\<close>

text \<open>
  A fit run in which the renewal model and the latent admissions process return: the
  result and the trace, for any observation process.
\<close>

lemma fit_run:
  assumes obs: "hosp_admission_obs_process_rv m = Some obs_process"
    and basic: "basic_renewal m (int (length ds)) padding = Inr b"
    and latent: "latent_hosp_admissions_rv m (RtInfectionsRenewalSample.latent_infections b)
                   (tr @ [BasicRenewalCall (int (length ds)) padding,
                          LatentAdmissionsCall (RtInfectionsRenewalSample.latent_infections b)])
                 = (Inr (rate # Arr ls # rest), tr')"
    and len: "length ls = length ds + i0"
    and off: "0 \<le> int i0 + padding"
  shows "HospitalAdmissionsModel_sample m None (Some (Arr ds)) padding tr
         = (case obs_process (Arr (drop (nat (int i0 + padding)) ls))
                  (Some (Arr (drop (nat (int i0 + padding)) (replicate i0 NaN @ ds)))) of
              Inl e \<Rightarrow> Inl e
            | Inr t \<Rightarrow>
                (case unpack_first t of
                   Inl e \<Rightarrow> Inl e
                 | Inr observed \<Rightarrow>
                     Inr \<lparr>HospModelSample.Rt = RtInfectionsRenewalSample.Rt b,
                          latent_infections = RtInfectionsRenewalSample.latent_infections b,
                          infection_hosp_rate = rate,
                          latent_hosp_admissions = Arr ls,
                          observed_hosp_admissions = Some observed\<rparr>),
            tr' @ [ObservationCall (Arr (drop (nat (int i0 + padding)) ls))
                     (Some (Arr (drop (nat (int i0 + padding)) (replicate i0 NaN @ ds))))])"
proof -
  have k: "int (length ds + i0) - int (length ds) + padding = int i0 + padding"
    by simp
  show ?thesis
    using obs basic len off
    by (simp add: model_run k
        and_then_run [where a = "latent_hosp_admissions_rv m
                                   (RtInfectionsRenewalSample.latent_infections b)", OF latent]
        split: sum.splits)
qed

text \<open>
  Claim C3, as the claim states it, fails when the padding exceeds the length of the
  observed data: with three observations, a latent series of five and a padding of
  four, both slices passed to the observation process are empty, and their length 0 is
  not \<open>3 - 4\<close>. The observation process of the example returns the observed series it
  is given, which is the empty one.
\<close>

theorem padding_beyond_the_data:
  "HospitalAdmissionsModel_sample example_model None (Some (Arr [Num 7, Num 8, Num 9])) 4 []
     = (Inr \<lparr>HospModelSample.Rt = Arr [Num 1, Num 1, Num 1, Num 1, Num 1],
             latent_infections = Arr [Num 100, Num 100, Num 100, Num 100, Num 100],
             infection_hosp_rate = Scalar (Num (1/10)),
             latent_hosp_admissions = Arr [Num 5, Num 10, Num 10, Num 10, Num 10],
             observed_hosp_admissions = Some (Arr [])\<rparr>,
        [BasicRenewalCall 3 4,
         LatentAdmissionsCall (Arr [Num 100, Num 100, Num 100, Num 100, Num 100]),
         SampleCall ''infect_hosp_rate_rv'', SampleCall ''infection_to_admission_interval_rv'',
         SampleCall ''day_of_week_effect_rv'', SampleCall ''hosp_report_prob_rv'',
         Deterministic ''latent_hospital_admissions''
           (Arr [Num 5, Num 10, Num 10, Num 10, Num 10]),
         ObservationCall (Arr []) (Some (Arr []))])
   \<and> int (length ([] :: float list)) \<noteq> int (length [Num 7, Num 8, Num 9]) - 4"
  by (simp add: model_run example_model_def example_latent_then)

text \<open>
  Claim C3, amended. In fit mode, with observed data of length \<open>L\<close>, a latent admissions
  series of length \<open>L + i0_size\<close> and an offset \<open>i0_size + padding\<close> that is not
  negative, \<open>sample\<close> left-pads the observed data with not-a-number markers to length
  \<open>L + i0_size\<close> and calls the observation process with the mean series and the padded
  observed series both sliced from offset \<open>i0_size + padding\<close>: what \<open>sample\<close>
  returns is what the observation process yields on these two slices, and the call is
  the last event of the trace. The two slices have the same length, \<open>L - padding\<close>
  when the padding is at most \<open>L\<close> and 0 beyond.
\<close>

theorem fit_alignment:
  assumes obs: "hosp_admission_obs_process_rv m = Some obs_process"
    and basic: "basic_renewal m (int (length ds)) padding = Inr b"
    and latent: "latent_hosp_admissions_rv m (RtInfectionsRenewalSample.latent_infections b)
                   (tr @ [BasicRenewalCall (int (length ds)) padding,
                          LatentAdmissionsCall (RtInfectionsRenewalSample.latent_infections b)])
                 = (Inr (rate # Arr ls # rest), tr')"
    and len: "length ls = length ds + i0"
    and off: "0 \<le> int i0 + padding"
  shows "pad_x_to_match_y (Arr ds) (Arr ls) NaN PadStart = Inr (Arr (replicate i0 NaN @ ds))
       \<and> length (replicate i0 NaN @ ds) = length ds + i0
       \<and> HospitalAdmissionsModel_sample m None (Some (Arr ds)) padding tr
           = (case obs_process (Arr (drop (nat (int i0 + padding)) ls))
                    (Some (Arr (drop (nat (int i0 + padding)) (replicate i0 NaN @ ds)))) of
                Inl e \<Rightarrow> Inl e
              | Inr t \<Rightarrow>
                  (case unpack_first t of
                     Inl e \<Rightarrow> Inl e
                   | Inr observed \<Rightarrow>
                       Inr \<lparr>HospModelSample.Rt = RtInfectionsRenewalSample.Rt b,
                            latent_infections = RtInfectionsRenewalSample.latent_infections b,
                            infection_hosp_rate = rate,
                            latent_hosp_admissions = Arr ls,
                            observed_hosp_admissions = Some observed\<rparr>),
              tr' @ [ObservationCall (Arr (drop (nat (int i0 + padding)) ls))
                       (Some (Arr (drop (nat (int i0 + padding)) (replicate i0 NaN @ ds))))])
       \<and> length (drop (nat (int i0 + padding)) ls)
           = length (drop (nat (int i0 + padding)) (replicate i0 NaN @ ds))
       \<and> int (length (drop (nat (int i0 + padding)) ls)) = max 0 (int (length ds) - padding)"
proof -
  have "int (length (drop (nat (int i0 + padding)) ls)) = max 0 (int (length ds) - padding)"
    using len off by simp
  moreover have "length (drop (nat (int i0 + padding)) ls)
           = length (drop (nat (int i0 + padding)) (replicate i0 NaN @ ds))"
    using len by simp
  moreover have "pad_x_to_match_y (Arr ds) (Arr ls) NaN PadStart
           = Inr (Arr (replicate i0 NaN @ ds))"
    using len by simp
  moreover have "length (replicate i0 NaN @ ds) = length ds + i0"
    by simp
  ultimately show ?thesis
    using fit_run [OF obs basic latent len off] by blast
qed

theorem fit_alignment_witness:
  "HospitalAdmissionsModel_sample example_model None (Some (Arr [Num 7, Num 8, Num 9])) 1 []
     = (Inr \<lparr>HospModelSample.Rt = Arr [Num 1, Num 1, Num 1, Num 1, Num 1],
             latent_infections = Arr [Num 100, Num 100, Num 100, Num 100, Num 100],
             infection_hosp_rate = Scalar (Num (1/10)),
             latent_hosp_admissions = Arr [Num 5, Num 10, Num 10, Num 10, Num 10],
             observed_hosp_admissions = Some (Arr [Num 8, Num 9])\<rparr>,
        [BasicRenewalCall 3 1,
         LatentAdmissionsCall (Arr [Num 100, Num 100, Num 100, Num 100, Num 100]),
         SampleCall ''infect_hosp_rate_rv'', SampleCall ''infection_to_admission_interval_rv'',
         SampleCall ''day_of_week_effect_rv'', SampleCall ''hosp_report_prob_rv'',
         Deterministic ''latent_hospital_admissions''
           (Arr [Num 5, Num 10, Num 10, Num 10, Num 10]),
         ObservationCall (Arr [Num 10, Num 10]) (Some (Arr [Num 8, Num 9]))])
   \<and> pad_x_to_match_y (Arr [Num 7, Num 8, Num 9]) (Arr [Num 5, Num 10, Num 10, Num 10, Num 10])
        NaN PadStart = Inr (Arr [NaN, NaN, Num 7, Num 8, Num 9])"
proof -
  let ?b = "\<lparr>RtInfectionsRenewalSample.Rt = Arr [Num 1, Num 1, Num 1, Num 1, Num 1],
              latent_infections = Arr [Num 100, Num 100, Num 100, Num 100, Num 100]\<rparr>"
  have obs: "hosp_admission_obs_process_rv example_model
             = Some (\<lambda>mu obs. Inr [case obs of None \<Rightarrow> mu | Some data \<Rightarrow> data])"
    by (simp add: example_model_def)
  have basic: "basic_renewal example_model (int (length [Num 7, Num 8, Num 9])) 1 = Inr ?b"
    by (simp add: example_model_def)
  have latent: "latent_hosp_admissions_rv example_model
                  (RtInfectionsRenewalSample.latent_infections ?b)
                  ([] @ [BasicRenewalCall (int (length [Num 7, Num 8, Num 9])) 1,
                         LatentAdmissionsCall (RtInfectionsRenewalSample.latent_infections ?b)])
                = (Inr (Scalar (Num (1/10)) # Arr [Num 5, Num 10, Num 10, Num 10, Num 10] # []),
                   [BasicRenewalCall 3 1,
                    LatentAdmissionsCall (Arr [Num 100, Num 100, Num 100, Num 100, Num 100]),
                    SampleCall ''infect_hosp_rate_rv'',
                    SampleCall ''infection_to_admission_interval_rv'',
                    SampleCall ''day_of_week_effect_rv'', SampleCall ''hosp_report_prob_rv'',
                    Deterministic ''latent_hospital_admissions''
                      (Arr [Num 5, Num 10, Num 10, Num 10, Num 10])])"
    by (simp add: example_model_def example_latent_run)
  have len: "length [Num 5, Num 10, Num 10, Num 10, Num 10]
             = length [Num 7, Num 8, Num 9] + 2"
    by simp
  have off: "0 \<le> int 2 + 1"
    by simp
  from fit_alignment [OF obs basic latent len off] show ?thesis
    by (simp add: numeral_2_eq_2 numeral_3_eq_3)
qed

text \<open>
  Claim C10. In fit mode, for every padding that is not negative and every latent
  admissions series at least as long as the observed data, the observed series passed
  to the observation process, obtained by left-padding the data with not-a-number
  markers to the latent length and slicing from offset \<open>i0_size + padding\<close>, is the
  observed data without its first \<open>padding\<close> entries, every marker being cut off:
  what \<open>sample\<close> returns is what the observation process yields on that series (and
  the mean series sliced at the same offset), and the call is the last event of the
  trace.
\<close>

theorem observed_window:
  assumes obs: "hosp_admission_obs_process_rv m = Some obs_process"
    and basic: "basic_renewal m (int (length ds)) padding = Inr b"
    and latent: "latent_hosp_admissions_rv m (RtInfectionsRenewalSample.latent_infections b)
                   (tr @ [BasicRenewalCall (int (length ds)) padding,
                          LatentAdmissionsCall (RtInfectionsRenewalSample.latent_infections b)])
                 = (Inr (rate # Arr ls # rest), tr')"
    and len: "length ds \<le> length ls"
    and pad: "0 \<le> padding"
  shows "pad_x_to_match_y (Arr ds) (Arr ls) NaN PadStart
           = Inr (Arr (replicate (length ls - length ds) NaN @ ds))
       \<and> slice_from (int (length ls) - int (length ds) + padding)
            (Arr (replicate (length ls - length ds) NaN @ ds))
           = Inr (Arr (drop (nat padding) ds))
       \<and> HospitalAdmissionsModel_sample m None (Some (Arr ds)) padding tr
           = (case obs_process (Arr (drop (length ls - length ds + nat padding) ls))
                    (Some (Arr (drop (nat padding) ds))) of
                Inl e \<Rightarrow> Inl e
              | Inr t \<Rightarrow>
                  (case unpack_first t of
                     Inl e \<Rightarrow> Inl e
                   | Inr observed \<Rightarrow>
                       Inr \<lparr>HospModelSample.Rt = RtInfectionsRenewalSample.Rt b,
                            latent_infections = RtInfectionsRenewalSample.latent_infections b,
                            infection_hosp_rate = rate,
                            latent_hosp_admissions = Arr ls,
                            observed_hosp_admissions = Some observed\<rparr>),
              tr' @ [ObservationCall (Arr (drop (length ls - length ds + nat padding) ls))
                       (Some (Arr (drop (nat padding) ds)))])"
proof -
  let ?i0 = "length ls - length ds"
  have l: "length ls = length ds + ?i0"
    using len by simp
  have off: "0 \<le> int ?i0 + padding"
    using pad by simp
  have k: "nat (int ?i0 + padding) = ?i0 + nat padding"
    using pad by (simp add: nat_add_distrib)
  have d: "drop (?i0 + nat padding) (replicate ?i0 NaN @ ds) = drop (nat padding) ds"
    by simp
  have "HospitalAdmissionsModel_sample m None (Some (Arr ds)) padding tr
           = (case obs_process (Arr (drop (?i0 + nat padding) ls))
                    (Some (Arr (drop (nat padding) ds))) of
                Inl e \<Rightarrow> Inl e
              | Inr t \<Rightarrow>
                  (case unpack_first t of
                     Inl e \<Rightarrow> Inl e
                   | Inr observed \<Rightarrow>
                       Inr \<lparr>HospModelSample.Rt = RtInfectionsRenewalSample.Rt b,
                            latent_infections = RtInfectionsRenewalSample.latent_infections b,
                            infection_hosp_rate = rate,
                            latent_hosp_admissions = Arr ls,
                            observed_hosp_admissions = Some observed\<rparr>),
              tr' @ [ObservationCall (Arr (drop (?i0 + nat padding) ls))
                       (Some (Arr (drop (nat padding) ds)))])"
    using fit_run [OF obs basic latent l off] by (simp only: k d)
  moreover have "pad_x_to_match_y (Arr ds) (Arr ls) NaN PadStart
           = Inr (Arr (replicate ?i0 NaN @ ds))"
    using len by simp
  moreover have "slice_from (int (length ls) - int (length ds) + padding)
                   (Arr (replicate ?i0 NaN @ ds))
                 = Inr (Arr (drop (nat padding) ds))"
  proof -
    have "int (length ls) - int (length ds) + padding = int (?i0 + nat padding)"
      using len pad by simp
    then show ?thesis by (simp only: slice_from.simps of_nat_0_le_iff if_True nat_int d)
  qed
  ultimately show ?thesis by blast
qed

theorem observed_window_witness:
  "HospitalAdmissionsModel_sample example_model None (Some (Arr [Num 7, NaN, Num 9])) 2 []
     = (Inr \<lparr>HospModelSample.Rt = Arr [Num 1, Num 1, Num 1, Num 1, Num 1],
             latent_infections = Arr [Num 100, Num 100, Num 100, Num 100, Num 100],
             infection_hosp_rate = Scalar (Num (1/10)),
             latent_hosp_admissions = Arr [Num 5, Num 10, Num 10, Num 10, Num 10],
             observed_hosp_admissions = Some (Arr [Num 9])\<rparr>,
        [BasicRenewalCall 3 2,
         LatentAdmissionsCall (Arr [Num 100, Num 100, Num 100, Num 100, Num 100]),
         SampleCall ''infect_hosp_rate_rv'', SampleCall ''infection_to_admission_interval_rv'',
         SampleCall ''day_of_week_effect_rv'', SampleCall ''hosp_report_prob_rv'',
         Deterministic ''latent_hospital_admissions''
           (Arr [Num 5, Num 10, Num 10, Num 10, Num 10]),
         ObservationCall (Arr [Num 10]) (Some (Arr [Num 9]))])
   \<and> pad_x_to_match_y (Arr [Num 7, NaN, Num 9]) (Arr [Num 5, Num 10, Num 10, Num 10, Num 10])
        NaN PadStart = Inr (Arr [NaN, NaN, Num 7, NaN, Num 9])"
proof -
  let ?b = "\<lparr>RtInfectionsRenewalSample.Rt = Arr [Num 1, Num 1, Num 1, Num 1, Num 1],
              latent_infections = Arr [Num 100, Num 100, Num 100, Num 100, Num 100]\<rparr>"
  have obs: "hosp_admission_obs_process_rv example_model
             = Some (\<lambda>mu obs. Inr [case obs of None \<Rightarrow> mu | Some data \<Rightarrow> data])"
    by (simp add: example_model_def)
  have basic: "basic_renewal example_model (int (length [Num 7, NaN, Num 9])) 2 = Inr ?b"
    by (simp add: example_model_def)
  have latent: "latent_hosp_admissions_rv example_model
                  (RtInfectionsRenewalSample.latent_infections ?b)
                  ([] @ [BasicRenewalCall (int (length [Num 7, NaN, Num 9])) 2,
                         LatentAdmissionsCall (RtInfectionsRenewalSample.latent_infections ?b)])
                = (Inr (Scalar (Num (1/10)) # Arr [Num 5, Num 10, Num 10, Num 10, Num 10] # []),
                   [BasicRenewalCall 3 2,
                    LatentAdmissionsCall (Arr [Num 100, Num 100, Num 100, Num 100, Num 100]),
                    SampleCall ''infect_hosp_rate_rv'',
                    SampleCall ''infection_to_admission_interval_rv'',
                    SampleCall ''day_of_week_effect_rv'', SampleCall ''hosp_report_prob_rv'',
                    Deterministic ''latent_hospital_admissions''
                      (Arr [Num 5, Num 10, Num 10, Num 10, Num 10])])"
    by (simp add: example_model_def example_latent_run)
  have len: "length [Num 7, NaN, Num 9] \<le> length [Num 5, Num 10, Num 10, Num 10, Num 10]"
    by simp
  have pad: "(0::int) \<le> 2"
    by simp
  from observed_window [OF obs basic latent len pad] show ?thesis
    by (simp add: numeral_2_eq_2 numeral_3_eq_3)
qed

end
